theory Spec2Isabelle
  imports Complex_Main "HOL-Library.Sublist" "HOL-Library.Log_Nat"
begin

section \<open>JavaScript values as the server sees them\<close>

text \<open>
  Every value that server.js handles arrives through \<^verbatim>\<open>JSON.parse\<close> (the request body
  parsed by \<^verbatim>\<open>express.json()\<close>, the persisted document parsed by \<^verbatim>\<open>readBookmarks\<close>)
  and leaves through \<^verbatim>\<open>JSON.stringify\<close> (\<^verbatim>\<open>res.json\<close>, \<^verbatim>\<open>writeBookmarks\<close>).
  A value is therefore a JSON value. An object is the list of its own properties in
  property order; \<^verbatim>\<open>undefined\<close> is \<open>None\<close> of \<open>json option\<close>.

  A string is held as its UTF-8 bytes (a surrogate half that stands alone as the three
  bytes of its code). A number is the rational it denotes; the numbers that
  \<^verbatim>\<open>JSON.parse\<close> yields are doubles, and what the program computes (the sum that makes
  an import id, the result of \<^verbatim>\<open>parseInt\<close>) is rounded to the nearest double, ties to
  even, by \<open>round_double\<close> and \<open>to_double_int\<close> below.
\<close>

datatype json =
    JNull
  | JBool bool
  | JNum rat
  | JStr string
  | JArr "json list"
  | JObj "(string \<times> json) list"

datatype js_error = TypeError | SyntaxError | IOError

text \<open>
  \<open>field v k\<close> is the property read \<^verbatim>\<open>v.k\<close> on a value other than \<^verbatim>\<open>null\<close>, for the
  property names that the program reads (\<^verbatim>\<open>id\<close>, \<^verbatim>\<open>title\<close>, \<^verbatim>\<open>url\<close>, \<^verbatim>\<open>category\<close>,
  \<^verbatim>\<open>description\<close>, \<^verbatim>\<open>bookmarks\<close>): none of them is a property of a string, a number,
  a boolean or an array. Reading a property of \<^verbatim>\<open>null\<close> throws; the callers test for it.
\<close>

fun field :: "json \<Rightarrow> string \<Rightarrow> json option" where
  "field (JObj ps) k = map_of ps k"
| "field _ k = None"

text \<open>JavaScript's \<^verbatim>\<open>!v\<close>.\<close>

fun falsy :: "json option \<Rightarrow> bool" where
  "falsy None = True"
| "falsy (Some JNull) = True"
| "falsy (Some (JBool b)) = (\<not> b)"
| "falsy (Some (JNum q)) = (q = 0)"
| "falsy (Some (JStr s)) = (s = [])"
| "falsy (Some (JArr xs)) = False"
| "falsy (Some (JObj ps)) = False"

text \<open>\<^verbatim>\<open>v || ''\<close>.\<close>

definition or_empty :: "json option \<Rightarrow> json" where
  "or_empty v = (case v of None \<Rightarrow> JStr [] | Some x \<Rightarrow> if falsy (Some x) then JStr [] else x)"

text \<open>
  Assigning a property in an object literal: an existing property keeps its place and
  takes the new value, a new property goes to the end.
\<close>

fun set_prop :: "string \<Rightarrow> json \<Rightarrow> (string \<times> json) list \<Rightarrow> (string \<times> json) list" where
  "set_prop k v [] = [(k, v)]"
| "set_prop k v (p # ps) = (if fst p = k then (k, v) # ps else p # set_prop k v ps)"

text \<open>
  A property whose value is \<^verbatim>\<open>undefined\<close> is left out by \<^verbatim>\<open>JSON.stringify\<close>, and
  every object built by the server is only ever serialised.
\<close>

definition put :: "string \<Rightarrow> json option \<Rightarrow> (string \<times> json) list \<Rightarrow> (string \<times> json) list" where
  "put k v ps = (case v of None \<Rightarrow> filter (\<lambda>p. fst p \<noteq> k) ps | Some x \<Rightarrow> set_prop k x ps)"

text \<open>Decimal rendering of an array index or of a count.\<close>

definition digit_char :: "nat \<Rightarrow> char" where
  "digit_char d = char_of (48 + d)"

function show_nat :: "nat \<Rightarrow> string" where
  "show_nat n = (if n < 10 then [digit_char n] else show_nat (n div 10) @ [digit_char (n mod 10)])"
  by pat_completeness auto
termination
  by (relation "measure id") auto

declare show_nat.simps [simp del]

text \<open>
  A string read as a sequence: iteration goes by code points, indexing by UTF-16 code
  units. In UTF-8 the first byte of a code point tells how many bytes it has; a code
  point of four bytes is two code units, the surrogate halves.
\<close>

definition seq_len :: "char \<Rightarrow> nat" where
  "seq_len c =
     (let n = (of_char c :: nat) in
      if n < 0x80 then 1
      else if 0xC0 \<le> n \<and> n < 0xE0 then 2
      else if 0xE0 \<le> n \<and> n < 0xF0 then 3
      else if 0xF0 \<le> n \<and> n < 0xF8 then 4
      else 1)"

fun code_points :: "string \<Rightarrow> string list" where
  "code_points [] = []"
| "code_points (c # cs) =
     (c # take (seq_len c - 1) cs) # code_points (drop (seq_len c - 1) cs)"

definition three_bytes :: "nat \<Rightarrow> string" where
  "three_bytes u =
     [char_of (0xE0 + u div 0x1000), char_of (0x80 + u div 0x40 mod 0x40), char_of (0x80 + u mod 0x40)]"

definition code_units_of :: "string \<Rightarrow> string list" where
  "code_units_of cp =
     (if length cp = 4
      then
        let b = map (of_char :: char \<Rightarrow> nat) cp;
            v = (b ! 0 - 0xF0) * 0x40000 + (b ! 1 - 0x80) * 0x1000 + (b ! 2 - 0x80) * 0x40
                + (b ! 3 - 0x80) - 0x10000
        in [three_bytes (0xD800 + v div 0x400), three_bytes (0xDC00 + v mod 0x400)]
      else [cp])"

definition code_units :: "string \<Rightarrow> string list" where
  "code_units s = concat (map code_units_of (code_points s))"

text \<open>
  The own enumerable properties copied by a spread \<^verbatim>\<open>{...v}\<close>: those of an object, the
  indexed elements of an array, the indexed code units of a string, and nothing for
  \<^verbatim>\<open>null\<close>, a number or a boolean.
\<close>

fun indexed :: "nat \<Rightarrow> json list \<Rightarrow> (string \<times> json) list" where
  "indexed i [] = []"
| "indexed i (x # xs) = (show_nat i, x) # indexed (Suc i) xs"

fun spread_props :: "json \<Rightarrow> (string \<times> json) list" where
  "spread_props (JObj ps) = ps"
| "spread_props (JArr xs) = indexed 0 xs"
| "spread_props (JStr s) = indexed 0 (map JStr (code_units s))"
| "spread_props _ = []"

text \<open>
  The elements produced by a spread \<^verbatim>\<open>[...v]\<close>: an array and a string are iterable,
  everything else that \<^verbatim>\<open>JSON.parse\<close> can return throws a TypeError.
\<close>

fun spread_elems :: "json \<Rightarrow> js_error + json list" where
  "spread_elems (JArr xs) = Inr xs"
| "spread_elems (JStr s) = Inr (map JStr (code_points s))"
| "spread_elems _ = Inl TypeError"

subsection \<open>Doubles\<close>

text \<open>
  The nearest double of an integer: exact below \<open>2 ^ 53\<close>; above, the 53 leading bits
  with the rest rounded to nearest, ties to even; from \<open>2 ^ 1024\<close> on, an infinity.
\<close>

datatype js_integer = NaN | Infinity | MinusInfinity | Finite int

definition half_even :: "int \<Rightarrow> int \<Rightarrow> int \<Rightarrow> int" where
  "half_even q r d =
     (if 2 * r < d then q else if d < 2 * r then q + 1 else if even q then q else q + 1)"

definition to_double_int :: "int \<Rightarrow> js_integer" where
  "to_double_int n =
     (let a = \<bar>n\<bar> in
      if a < 2 ^ 53 then Finite n
      else
        let e = nat (bitlen a - 53);
            q = half_even (a div 2 ^ e) (a mod 2 ^ e) (2 ^ e);
            v = q * 2 ^ e
        in if 2 ^ 1024 \<le> v then (if n < 0 then MinusInfinity else Infinity)
           else Finite (if n < 0 then - v else v))"

text \<open>
  The nearest double of a rational \<open>x\<close>: with \<open>2 ^ e \<le> \<bar>x\<bar> < 2 ^ (e + 1)\<close> the doubles
  around \<open>x\<close> are the multiples of \<open>2 ^ (e - 52)\<close> (of \<open>2 ^ - 1074\<close> for the subnormal
  ones); \<open>None\<close> is an infinity.
\<close>

definition pow2 :: "int \<Rightarrow> rat" where
  "pow2 k = (if 0 \<le> k then 2 ^ nat k else 1 / 2 ^ nat (- k))"

definition floor_log2 :: "rat \<Rightarrow> int" where
  "floor_log2 a =
     (let (p, d) = quotient_of a; e0 = bitlen p - bitlen d
      in if pow2 e0 \<le> a then e0 else e0 - 1)"

definition round_double :: "rat \<Rightarrow> rat option" where
  "round_double x =
     (if x = 0 then Some 0
      else
        let a = \<bar>x\<bar>;
            ulp = pow2 (max (floor_log2 a) (- 1022) - 52);
            m = a / ulp;
            n = \<lfloor>m\<rfloor>;
            f = m - of_int n;
            k = (if f < 1 / 2 then n else if 1 / 2 < f then n + 1
                 else if even n then n else n + 1);
            v = of_int k * ulp
        in if pow2 1024 \<le> v then None else Some (if x < 0 then - v else v))"

text \<open>A number as \<^verbatim>\<open>JSON.stringify\<close> writes it: an infinity becomes \<^verbatim>\<open>null\<close>.\<close>

definition number_json :: "rat option \<Rightarrow> json" where
  "number_json x = (case x of None \<Rightarrow> JNull | Some q \<Rightarrow> JNum q)"

subsection \<open>parseInt\<close>

text \<open>
  \<^verbatim>\<open>parseInt(s)\<close> with no radix: leading white space is skipped, then an optional sign,
  then an optional \<^verbatim>\<open>0x\<close> or \<^verbatim>\<open>0X\<close> that selects radix 16, then the longest run of
  digits of the radix. No digit at all gives \<^verbatim>\<open>NaN\<close>; otherwise the result is the
  nearest double of the signed integer that the digits denote.

  The white space is that of the language: tab, line feed, vertical tab, form feed,
  carriage return, space, U+00A0, U+1680, U+2000 to U+200A, U+2028, U+2029, U+202F,
  U+205F, U+3000 and U+FEFF, each listed here by its UTF-8 bytes.
\<close>

definition white_space :: "string list" where
  "white_space =
     [[CHR 0x09], [CHR 0x0A], [CHR 0x0B], [CHR 0x0C], [CHR 0x0D], [CHR 0x20],
      [CHR 0xC2, CHR 0xA0],
      [CHR 0xE1, CHR 0x9A, CHR 0x80],
      [CHR 0xE2, CHR 0x80, CHR 0x80], [CHR 0xE2, CHR 0x80, CHR 0x81],
      [CHR 0xE2, CHR 0x80, CHR 0x82], [CHR 0xE2, CHR 0x80, CHR 0x83],
      [CHR 0xE2, CHR 0x80, CHR 0x84], [CHR 0xE2, CHR 0x80, CHR 0x85],
      [CHR 0xE2, CHR 0x80, CHR 0x86], [CHR 0xE2, CHR 0x80, CHR 0x87],
      [CHR 0xE2, CHR 0x80, CHR 0x88], [CHR 0xE2, CHR 0x80, CHR 0x89],
      [CHR 0xE2, CHR 0x80, CHR 0x8A],
      [CHR 0xE2, CHR 0x80, CHR 0xA8], [CHR 0xE2, CHR 0x80, CHR 0xA9],
      [CHR 0xE2, CHR 0x80, CHR 0xAF],
      [CHR 0xE2, CHR 0x81, CHR 0x9F],
      [CHR 0xE3, CHR 0x80, CHR 0x80],
      [CHR 0xEF, CHR 0xBB, CHR 0xBF]]"

text \<open>The number of bytes of the white-space character at the head of \<open>s\<close>, 0 for none.\<close>

definition space_bytes :: "string \<Rightarrow> nat" where
  "space_bytes s =
     (case find (\<lambda>w. prefix w s) white_space of None \<Rightarrow> 0 | Some w \<Rightarrow> length w)"

function skip_space :: "string \<Rightarrow> string" where
  "skip_space s = (if space_bytes s = 0 then s else skip_space (drop (space_bytes s) s))"
  by pat_completeness auto
termination
proof (relation "measure length")
  show "wf (measure length)"
    by simp
next
  fix s :: string
  assume some: "space_bytes s \<noteq> 0"
  have "space_bytes [] = 0"
    by (simp add: space_bytes_def white_space_def)
  with some have "s \<noteq> []"
    by auto
  with some show "(drop (space_bytes s) s, s) \<in> measure length"
    by (cases s) auto
qed

declare skip_space.simps [simp del]

definition digit_val :: "char \<Rightarrow> nat option" where
  "digit_val c =
     (let n = (of_char c :: nat) in
      if 48 \<le> n \<and> n \<le> 57 then Some (n - 48)
      else if 97 \<le> n \<and> n \<le> 122 then Some (n - 87)
      else if 65 \<le> n \<and> n \<le> 90 then Some (n - 55)
      else None)"

definition is_digit :: "nat \<Rightarrow> char \<Rightarrow> bool" where
  "is_digit radix c = (case digit_val c of None \<Rightarrow> False | Some d \<Rightarrow> d < radix)"

definition digits_value :: "nat \<Rightarrow> string \<Rightarrow> int" where
  "digits_value radix ds =
     foldl (\<lambda>a c. a * int radix + (case digit_val c of None \<Rightarrow> 0 | Some d \<Rightarrow> int d)) 0 ds"

fun strip_sign :: "string \<Rightarrow> int \<times> string" where
  "strip_sign (c # cs) =
     (if c = CHR ''-'' then (- 1, cs) else if c = CHR ''+'' then (1, cs) else (1, c # cs))"
| "strip_sign [] = (1, [])"

fun strip_radix :: "string \<Rightarrow> nat \<times> string" where
  "strip_radix (c # d # cs) =
     (if c = CHR ''0'' \<and> (d = CHR ''x'' \<or> d = CHR ''X'') then (16, cs) else (10, c # d # cs))"
| "strip_radix cs = (10, cs)"

definition parseInt :: "string \<Rightarrow> js_integer" where
  "parseInt s =
     (let (sign, s1) = strip_sign (skip_space s);
          (radix, s2) = strip_radix s1;
          ds = takeWhile (is_digit radix) s2
      in if ds = [] then NaN else to_double_int (sign * digits_value radix ds))"

text \<open>
  \<^verbatim>\<open>v === n\<close> for the number \<open>n\<close> returned by \<^verbatim>\<open>parseInt\<close>: \<^verbatim>\<open>NaN\<close> equals nothing, and
  an infinity equals no number of a parsed document.
\<close>

fun strict_eq :: "json option \<Rightarrow> js_integer \<Rightarrow> bool" where
  "strict_eq (Some (JNum q)) (Finite n) = (q = of_int n)"
| "strict_eq _ _ = False"

section \<open>The store\<close>

text \<open>
  The file \<^verbatim>\<open>bookmarks.json\<close> is absent (\<open>None\<close>) or has a text. A text is either one
  that \<^verbatim>\<open>JSON.parse\<close> rejects or the serialisation of a JSON value; \<^verbatim>\<open>JSON.parse\<close> of
  \<^verbatim>\<open>JSON.stringify(v)\<close> is \<open>v\<close> for the values of type \<open>json\<close>.
\<close>

datatype file_text = Unparsable string | Text_of json

type_synonym document = "file_text option"

definition fs_readFile :: "document \<Rightarrow> js_error + file_text" where
  "fs_readFile doc = (case doc of None \<Rightarrow> Inl IOError | Some t \<Rightarrow> Inr t)"

fun JSON_parse :: "file_text \<Rightarrow> js_error + json" where
  "JSON_parse (Unparsable s) = Inl SyntaxError"
| "JSON_parse (Text_of v) = Inr v"

definition JSON_stringify :: "json \<Rightarrow> file_text" where
  "JSON_stringify v = Text_of v"

definition readBookmarks :: "document \<Rightarrow> json" where
  "readBookmarks doc =
     (case fs_readFile doc of
        Inl e \<Rightarrow> JArr []
      | Inr data \<Rightarrow> (case JSON_parse data of Inl e \<Rightarrow> JArr [] | Inr v \<Rightarrow> v))"

text \<open>
  What a request reads from its surroundings: the readings of \<^verbatim>\<open>Date.now()\<close> (whole
  milliseconds) and of \<^verbatim>\<open>Math.random()\<close> (a double from 0 up to but excluding 1), the
  k-th call of the request counted from 0, the date string
  \<^verbatim>\<open>new Date().toISOString().split('T')[0]\<close>, and whether \<^verbatim>\<open>fs.writeFile\<close> fails:
  \<open>None\<close> when it succeeds, \<open>Some d\<close> when it fails and leaves the document \<open>d\<close> behind.
\<close>

record env =
  date_now :: "nat \<Rightarrow> int"
  math_random :: "nat \<Rightarrow> rat"
  iso_date :: string
  write_fault :: "document option"

definition writeBookmarks :: "env \<Rightarrow> json \<Rightarrow> bool \<times> document" where
  "writeBookmarks e bookmarks =
     (case write_fault e of
        None \<Rightarrow> (True, Some (JSON_stringify bookmarks))
      | Some d \<Rightarrow> (False, d))"

text \<open>
  \<^verbatim>\<open>initializeBookmarksFile\<close>: when \<^verbatim>\<open>fs.access\<close> fails the three default bookmarks
  are written with \<^verbatim>\<open>fs.writeFile\<close>; an existing file is left alone, parsable or not.
\<close>

definition defaultBookmarks :: "string \<Rightarrow> json list" where
  "defaultBookmarks today =
     [JObj [(''id'', JNum 1),
            (''title'', JStr ''React Documentation''),
            (''url'', JStr ''https://react.dev''),
            (''category'', JStr ''Development''),
            (''description'', JStr ''Official React documentation and guides''),
            (''dateAdded'', JStr today)],
      JObj [(''id'', JNum 2),
            (''title'', JStr ''MDN Web Docs''),
            (''url'', JStr ''https://developer.mozilla.org''),
            (''category'', JStr ''Development''),
            (''description'', JStr ''Web development resources and references''),
            (''dateAdded'', JStr today)],
      JObj [(''id'', JNum 3),
            (''title'', JStr ''GitHub''),
            (''url'', JStr ''https://github.com''),
            (''category'', JStr ''Tools''),
            (''description'', JStr ''Code hosting and collaboration platform''),
            (''dateAdded'', JStr today)]]"

definition initializeBookmarksFile :: "env \<Rightarrow> document \<Rightarrow> document" where
  "initializeBookmarksFile e doc =
     (case doc of
        Some t \<Rightarrow> doc
      | None \<Rightarrow>
          (case write_fault e of
             None \<Rightarrow> Some (JSON_stringify (JArr (defaultBookmarks (iso_date e))))
           | Some d \<Rightarrow> d))"

section \<open>The request handlers of server.js\<close>

datatype response = Response (status: nat) (payload: json)

definition error_json :: "string \<Rightarrow> json" where
  "error_json msg = JObj [(''error'', JStr msg)]"

definition message_json :: "string \<Rightarrow> json" where
  "message_json msg = JObj [(''message'', JStr msg)]"

text \<open>The property assignments of an object literal, in the order they are written.\<close>

definition assign_all :: "(string \<times> json option) list \<Rightarrow> (string \<times> json) list \<Rightarrow> (string \<times> json) list" where
  "assign_all kvs ps = foldl (\<lambda>acc kv. put (fst kv) (snd kv) acc) ps kvs"

subsection \<open>GET /api/bookmarks\<close>

definition getBookmarks :: "document \<Rightarrow> response" where
  "getBookmarks doc = Response 200 (readBookmarks doc)"

subsection \<open>POST /api/bookmarks\<close>

text \<open>
  The request body \<^verbatim>\<open>req.body\<close> is a JSON value, or \<open>JNull\<close> when no body was parsed
  (\<^verbatim>\<open>undefined\<close>): destructuring it then throws, and the handler's \<^verbatim>\<open>catch\<close> answers
  500. \<^verbatim>\<open>bookmarks.push\<close> exists only when the parsed document is an array; on
  anything else the call throws as well.
\<close>

definition createBookmark :: "env \<Rightarrow> json \<Rightarrow> document \<Rightarrow> response \<times> document" where
  "createBookmark e body doc =
     (if body = JNull then (Response 500 (error_json ''Failed to add bookmark''), doc)
      else
        let title = field body ''title'';
            url = field body ''url'';
            category = field body ''category'';
            description = field body ''description''
        in if falsy title \<or> falsy url
           then (Response 400 (error_json ''Title and URL are required''), doc)
           else
             (case readBookmarks doc of
                JArr bookmarks \<Rightarrow>
                  let newBookmark = JObj (assign_all
                        [(''id'', Some (JNum (of_int (date_now e 0)))),
                         (''title'', title),
                         (''url'', url),
                         (''category'', Some (or_empty category)),
                         (''description'', Some (or_empty description)),
                         (''dateAdded'', Some (JStr (iso_date e)))] []);
                      (success, doc') = writeBookmarks e (JArr (bookmarks @ [newBookmark]))
                  in if success then (Response 201 newBookmark, doc')
                     else (Response 500 (error_json ''Failed to save bookmark''), doc')
              | _ \<Rightarrow> (Response 500 (error_json ''Failed to add bookmark''), doc)))"

subsection \<open>PUT /api/bookmarks/:id\<close>

text \<open>
  \<^verbatim>\<open>bookmarks.findIndex(b => b.id === bookmarkId)\<close>: the index of the first match,
  \<open>None\<close> for \<^verbatim>\<open>-1\<close>, and a TypeError when an element met on the way is \<^verbatim>\<open>null\<close>.
\<close>

fun findIndex_id :: "json list \<Rightarrow> js_integer \<Rightarrow> js_error + nat option" where
  "findIndex_id [] n = Inr None"
| "findIndex_id (b # bs) n =
     (if b = JNull then Inl TypeError
      else if strict_eq (field b ''id'') n then Inr (Some 0)
      else (case findIndex_id bs n of
              Inl err \<Rightarrow> Inl err
            | Inr None \<Rightarrow> Inr None
            | Inr (Some i) \<Rightarrow> Inr (Some (Suc i))))"

definition updateBookmark :: "env \<Rightarrow> string \<Rightarrow> json \<Rightarrow> document \<Rightarrow> response \<times> document" where
  "updateBookmark e path body doc =
     (let bookmarkId = parseInt path in
      if body = JNull then (Response 500 (error_json ''Failed to update bookmark''), doc)
      else
        let title = field body ''title'';
            url = field body ''url'';
            category = field body ''category'';
            description = field body ''description''
        in if falsy title \<or> falsy url
           then (Response 400 (error_json ''Title and URL are required''), doc)
           else
             (case readBookmarks doc of
                JArr bookmarks \<Rightarrow>
                  (case findIndex_id bookmarks bookmarkId of
                     Inl err \<Rightarrow> (Response 500 (error_json ''Failed to update bookmark''), doc)
                   | Inr None \<Rightarrow> (Response 404 (error_json ''Bookmark not found''), doc)
                   | Inr (Some bookmarkIndex) \<Rightarrow>
                       let updated = JObj (assign_all
                             [(''title'', title),
                              (''url'', url),
                              (''category'', Some (or_empty category)),
                              (''description'', Some (or_empty description))]
                             (spread_props (bookmarks ! bookmarkIndex)));
                           bookmarks' = bookmarks[bookmarkIndex := updated];
                           (success, doc') = writeBookmarks e (JArr bookmarks')
                       in if success then (Response 200 (bookmarks' ! bookmarkIndex), doc')
                          else (Response 500 (error_json ''Failed to update bookmark''), doc'))
              | _ \<Rightarrow> (Response 500 (error_json ''Failed to update bookmark''), doc)))"

subsection \<open>DELETE /api/bookmarks/:id\<close>

text \<open>\<^verbatim>\<open>bookmarks.filter(b => b.id !== bookmarkId)\<close>, which throws on a \<^verbatim>\<open>null\<close> element.\<close>

fun filter_other :: "json list \<Rightarrow> js_integer \<Rightarrow> js_error + json list" where
  "filter_other [] n = Inr []"
| "filter_other (b # bs) n =
     (if b = JNull then Inl TypeError
      else (case filter_other bs n of
              Inl err \<Rightarrow> Inl err
            | Inr rest \<Rightarrow> Inr (if \<not> strict_eq (field b ''id'') n then b # rest else rest)))"

definition deleteBookmark :: "env \<Rightarrow> string \<Rightarrow> document \<Rightarrow> response \<times> document" where
  "deleteBookmark e path doc =
     (let bookmarkId = parseInt path in
      case readBookmarks doc of
        JArr bookmarks \<Rightarrow>
          (case filter_other bookmarks bookmarkId of
             Inl err \<Rightarrow> (Response 500 (error_json ''Failed to delete bookmark''), doc)
           | Inr filteredBookmarks \<Rightarrow>
               if length filteredBookmarks = length bookmarks
               then (Response 404 (error_json ''Bookmark not found''), doc)
               else
                 let (success, doc') = writeBookmarks e (JArr filteredBookmarks)
                 in if success then (Response 200 (message_json ''Bookmark deleted successfully''), doc')
                    else (Response 500 (error_json ''Failed to delete bookmark''), doc'))
      | _ \<Rightarrow> (Response 500 (error_json ''Failed to delete bookmark''), doc))"

subsection \<open>DELETE /api/bookmarks\<close>

definition clearBookmarks :: "env \<Rightarrow> document \<Rightarrow> response \<times> document" where
  "clearBookmarks e doc =
     (let (success, doc') = writeBookmarks e (JArr [])
      in if success then (Response 200 (message_json ''All bookmarks cleared successfully''), doc')
         else (Response 500 (error_json ''Failed to clear bookmarks''), doc'))"

subsection \<open>POST /api/bookmarks/import\<close>

text \<open>
  \<^verbatim>\<open>importedBookmarks.map(bookmark => ({...bookmark, id: Date.now() + Math.random()}))\<close>;
  \<open>k\<close> counts the callbacks, each of which reads the clock and the generator once.
  The sum is a double addition: the exact sum rounded to the nearest double.
\<close>

fun with_new_ids :: "env \<Rightarrow> nat \<Rightarrow> json list \<Rightarrow> json list" where
  "with_new_ids e k [] = []"
| "with_new_ids e k (bookmark # rest) =
     JObj (assign_all
            [(''id'', Some (number_json (round_double (of_int (date_now e k) + math_random e k))))]
            (spread_props bookmark))
     # with_new_ids e (Suc k) rest"

definition import_ok :: "nat \<Rightarrow> json" where
  "import_ok n =
     JObj [(''message'', JStr (''Successfully imported '' @ show_nat n @ '' bookmarks'')),
           (''count'', JNum (of_nat n))]"

definition importBookmarks :: "env \<Rightarrow> json \<Rightarrow> document \<Rightarrow> response \<times> document" where
  "importBookmarks e body doc =
     (if body = JNull then (Response 500 (error_json ''Failed to import bookmarks''), doc)
      else
        (case field body ''bookmarks'' of
           Some (JArr importedBookmarks) \<Rightarrow>
             let currentBookmarks = readBookmarks doc;
                 bookmarksWithNewIds = with_new_ids e 0 importedBookmarks
             in (case spread_elems currentBookmarks of
                   Inl err \<Rightarrow> (Response 500 (error_json ''Failed to import bookmarks''), doc)
                 | Inr current \<Rightarrow>
                     let allBookmarks = current @ bookmarksWithNewIds;
                         (success, doc') = writeBookmarks e (JArr allBookmarks)
                     in if success then (Response 200 (import_ok (length importedBookmarks)), doc')
                        else (Response 500 (error_json ''Failed to import bookmarks''), doc'))
         | _ \<Rightarrow> (Response 400 (error_json ''Invalid bookmarks format''), doc)))"

section \<open>The visible bookmarks of App.js\<close>

text \<open>
  \<^verbatim>\<open>String.prototype.toLowerCase\<close> maps a string through the case tables of Unicode,
  which belong to the engine and not to the repository: it is the parameter
  \<open>toLowerCase\<close> of the functions below, about which nothing is assumed.
\<close>

fun starts_with :: "string \<Rightarrow> string \<Rightarrow> bool" where
  "starts_with s [] = True"
| "starts_with [] (c # t) = False"
| "starts_with (a # s) (c # t) = (a = c \<and> starts_with s t)"

text \<open>\<^verbatim>\<open>s.includes(t)\<close>: \<open>t\<close> occurs in \<open>s\<close> at some position.\<close>

fun includes_str :: "string \<Rightarrow> string \<Rightarrow> bool" where
  "includes_str [] t = (t = [])"
| "includes_str (a # s) t = (starts_with (a # s) t \<or> includes_str s t)"

text \<open>
  \<^verbatim>\<open>bookmark.title.toLowerCase()\<close> and its siblings: a TypeError when the bookmark is
  \<^verbatim>\<open>null\<close> or the property is not a string.
\<close>

definition lower_field :: "(string \<Rightarrow> string) \<Rightarrow> json \<Rightarrow> string \<Rightarrow> js_error + string" where
  "lower_field toLowerCase bookmark k =
     (if bookmark = JNull then Inl TypeError
      else (case field bookmark k of
              Some (JStr s) \<Rightarrow> Inr (toLowerCase s)
            | _ \<Rightarrow> Inl TypeError))"

text \<open>The disjunction is evaluated left to right and stops at the first true operand.\<close>

definition matchesSearch :: "(string \<Rightarrow> string) \<Rightarrow> string \<Rightarrow> json \<Rightarrow> js_error + bool" where
  "matchesSearch toLowerCase searchTerm bookmark =
     (case lower_field toLowerCase bookmark ''title'' of
        Inl err \<Rightarrow> Inl err
      | Inr t \<Rightarrow>
          if includes_str t (toLowerCase searchTerm) then Inr True
          else (case lower_field toLowerCase bookmark ''description'' of
                  Inl err \<Rightarrow> Inl err
                | Inr d \<Rightarrow>
                    if includes_str d (toLowerCase searchTerm) then Inr True
                    else (case lower_field toLowerCase bookmark ''url'' of
                            Inl err \<Rightarrow> Inl err
                          | Inr u \<Rightarrow> Inr (includes_str u (toLowerCase searchTerm)))))"

definition matchesCategory :: "string \<Rightarrow> json \<Rightarrow> bool" where
  "matchesCategory selectedCategory bookmark =
     (selectedCategory = ''All'' \<or> field bookmark ''category'' = Some (JStr selectedCategory))"

fun filteredBookmarks ::
  "(string \<Rightarrow> string) \<Rightarrow> json list \<Rightarrow> string \<Rightarrow> string \<Rightarrow> js_error + json list" where
  "filteredBookmarks toLowerCase [] searchTerm selectedCategory = Inr []"
| "filteredBookmarks toLowerCase (bookmark # rest) searchTerm selectedCategory =
     (case matchesSearch toLowerCase searchTerm bookmark of
        Inl err \<Rightarrow> Inl err
      | Inr ms \<Rightarrow>
          (case filteredBookmarks toLowerCase rest searchTerm selectedCategory of
             Inl err \<Rightarrow> Inl err
           | Inr visible \<Rightarrow>
               Inr (if ms \<and> matchesCategory selectedCategory bookmark
                    then bookmark # visible else visible)))"

section \<open>Notions used to state the properties\<close>

text \<open>The ids of the records of a Collection, in order; \<open>None\<close> for a record without one.\<close>

definition ids_of :: "json list \<Rightarrow> json option list" where
  "ids_of bookmarks = map (\<lambda>b. field b ''id'') bookmarks"

text \<open>\<^verbatim>\<open>Number.isInteger\<close> on the rationals.\<close>

definition is_integer :: "rat \<Rightarrow> bool" where
  "is_integer q = (of_int \<lfloor>q\<rfloor> = q)"

text \<open>
  The visible set as the specification words it, the folding of letter case being the
  engine's \<open>toLowerCase\<close>: the folded search term occurs in the folded title,
  description or url, and the selected category is the wildcard or is the bookmark's
  category.
\<close>

definition term_in :: "(string \<Rightarrow> string) \<Rightarrow> string \<Rightarrow> json option \<Rightarrow> bool" where
  "term_in toLowerCase searchTerm v =
     (case v of Some (JStr s) \<Rightarrow> sublist (toLowerCase searchTerm) (toLowerCase s) | _ \<Rightarrow> False)"

definition visible_spec :: "(string \<Rightarrow> string) \<Rightarrow> string \<Rightarrow> string \<Rightarrow> json \<Rightarrow> bool" where
  "visible_spec toLowerCase searchTerm selectedCategory b =
     ((term_in toLowerCase searchTerm (field b ''title'')
       \<or> term_in toLowerCase searchTerm (field b ''description'')
       \<or> term_in toLowerCase searchTerm (field b ''url''))
      \<and> (selectedCategory = ''All'' \<or> field b ''category'' = Some (JStr selectedCategory)))"

text \<open>The bookmarks on which the three \<^verbatim>\<open>toLowerCase\<close> calls cannot throw.\<close>

fun is_text :: "json option \<Rightarrow> bool" where
  "is_text (Some (JStr s)) = True"
| "is_text _ = False"

definition has_texts :: "json \<Rightarrow> bool" where
  "has_texts b =
     (is_text (field b ''title'') \<and> is_text (field b ''description'') \<and> is_text (field b ''url''))"

text \<open>
  Surroundings for concrete runs: a clock that shows the same millisecond at every
  reading of a request, and a generator that yields the listed draws in order.
\<close>

definition fixed_clock :: "int \<Rightarrow> nat \<Rightarrow> int" where
  "fixed_clock t k = t"

definition draws :: "rat list \<Rightarrow> nat \<Rightarrow> rat" where
  "draws rs k = (if k < length rs then rs ! k else 0)"

text \<open>A request served at millisecond \<open>t\<close> of day \<open>d\<close> on a disk that takes the write.\<close>

definition served_at :: "int \<Rightarrow> string \<Rightarrow> rat list \<Rightarrow> env" where
  "served_at t d rs =
     \<lparr>date_now = fixed_clock t, math_random = draws rs, iso_date = d, write_fault = None\<rparr>"

section \<open>Auxiliary facts\<close>

lemma map_of_set_prop:
  "map_of (set_prop k v ps) k' = (if k' = k then Some v else map_of ps k')"
  by (induction ps) auto

lemma map_of_remove:
  "map_of (filter (\<lambda>p. fst p \<noteq> k) ps) k' = (if k' = k then None else map_of ps k')"
  by (induction ps) auto

lemma map_of_put: "map_of (put k v ps) k' = (if k' = k then v else map_of ps k')"
  by (cases v) (simp_all add: put_def map_of_set_prop map_of_remove)

lemma readBookmarks_simps:
  "readBookmarks None = JArr []"
  "readBookmarks (Some (Unparsable s)) = JArr []"
  "readBookmarks (Some (Text_of v)) = v"
  by (simp_all add: readBookmarks_def fs_readFile_def)

lemma writeBookmarks_ok:
  "write_fault e = None \<Longrightarrow> writeBookmarks e v = (True, Some (Text_of v))"
  by (simp add: writeBookmarks_def JSON_stringify_def)

lemma findIndex_id_Some:
  "findIndex_id bs n = Inr (Some i) \<Longrightarrow>
     i < length bs \<and> strict_eq (field (bs ! i) ''id'') n
     \<and> (\<forall>j<i. \<not> strict_eq (field (bs ! j) ''id'') n)"
proof (induction bs arbitrary: i)
  case Nil
  then show ?case by simp
next
  case (Cons b bs)
  show ?case
  proof (cases "strict_eq (field b ''id'') n")
    case True
    with Cons.prems show ?thesis by (auto split: if_splits)
  next
    case False
    with Cons.prems obtain i' where i': "findIndex_id bs n = Inr (Some i')" "i = Suc i'"
      by (auto split: if_splits sum.splits option.splits)
    from Cons.IH [OF i'(1)] False i'(2) show ?thesis
      by (auto simp: less_Suc_eq_0_disj)
  qed
qed

lemma findIndex_id_None:
  "findIndex_id bs n = Inr None
     \<longleftrightarrow> (\<forall>b\<in>set bs. b \<noteq> JNull \<and> \<not> strict_eq (field b ''id'') n)"
  by (induction bs) (auto split: sum.splits option.splits)

lemma filter_other_Inr:
  "filter_other bs n = Inr r \<Longrightarrow> r = filter (\<lambda>b. \<not> strict_eq (field b ''id'') n) bs"
  by (induction bs arbitrary: r) (auto split: if_splits sum.splits)

lemma filter_other_total:
  "\<forall>b\<in>set bs. b \<noteq> JNull \<Longrightarrow>
     filter_other bs n = Inr (filter (\<lambda>b. \<not> strict_eq (field b ''id'') n) bs)"
  by (induction bs) auto

lemma with_new_ids_length: "length (with_new_ids e k bs) = length bs"
  by (induction bs arbitrary: k) auto

lemma with_new_ids_nth:
  "i < length bs \<Longrightarrow> with_new_ids e k bs ! i =
     JObj (assign_all
            [(''id'', Some (number_json
                (round_double (of_int (date_now e (k + i)) + math_random e (k + i)))))]
            (spread_props (bs ! i)))"
proof (induction bs arbitrary: k i)
  case Nil
  then show ?case by simp
next
  case (Cons b bs)
  then show ?case by (cases i) auto
qed

lemma starts_with_prefix: "starts_with s t \<longleftrightarrow> prefix t s"
  by (induction s t rule: starts_with.induct) auto

lemma includes_str_sublist: "includes_str s t \<longleftrightarrow> sublist t s"
  by (induction s) (auto simp: starts_with_prefix sublist_Cons_right)

lemmas run_defs =
  createBookmark_def updateBookmark_def deleteBookmark_def importBookmarks_def
  getBookmarks_def readBookmarks_def fs_readFile_def writeBookmarks_def JSON_stringify_def
  assign_all_def put_def or_empty_def fixed_clock_def draws_def ids_of_def error_json_def
  message_json_def import_ok_def Let_def served_at_def defaultBookmarks_def
  initializeBookmarksFile_def

section \<open>Import\<close>

text \<open>
  What Import does when it succeeds: the input records are appended, in order, after
  the records already there; the k-th appended record has as its id the double sum of
  the k-th clock reading and the k-th random draw, whatever id the input carried; and
  every other property of it is exactly the property of the input record (for an input
  object \<open>JObj ps\<close>, \<open>spread_props\<close> is \<open>ps\<close>).
\<close>

lemma import_appends_records:
  assumes "field body ''bookmarks'' = Some (JArr recs)"
    and "readBookmarks doc = JArr cur"
    and "write_fault e = None"
  shows "\<exists>new. importBookmarks e body doc =
            (Response 200 (import_ok (length recs)), Some (Text_of (JArr (cur @ new))))
          \<and> field (import_ok (length recs)) ''count'' = Some (JNum (of_nat (length recs)))
          \<and> length new = length recs
          \<and> (\<forall>k<length recs.
                field (new ! k) ''id''
                  = Some (number_json (round_double (of_int (date_now e k) + math_random e k)))
              \<and> (\<forall>f. f \<noteq> ''id'' \<longrightarrow> field (new ! k) f = map_of (spread_props (recs ! k)) f))"
proof -
  let ?new = "with_new_ids e 0 recs"
  from assms(1) have "body \<noteq> JNull" by auto
  with assms have "importBookmarks e body doc =
      (Response 200 (import_ok (length recs)), Some (Text_of (JArr (cur @ ?new))))"
    by (simp add: importBookmarks_def writeBookmarks_ok)
  moreover have "field (import_ok (length recs)) ''count'' = Some (JNum (of_nat (length recs)))"
    by (simp add: import_ok_def)
  moreover have "length ?new = length recs"
    by (rule with_new_ids_length)
  moreover have "\<forall>k<length recs.
        field (?new ! k) ''id''
          = Some (number_json (round_double (of_int (date_now e k) + math_random e k)))
      \<and> (\<forall>f. f \<noteq> ''id'' \<longrightarrow> field (?new ! k) f = map_of (spread_props (recs ! k)) f)"
    by (simp add: with_new_ids_nth assign_all_def map_of_put)
  ultimately show ?thesis by blast
qed

text \<open>
  C1, at an input where the code breaks it. An Import of one record that has a title
  and a url and nothing else, against an empty Collection, the write succeeding: the
  record is stored with its new id and without any \<^verbatim>\<open>category\<close> or \<^verbatim>\<open>description\<close>
  property, where the claim has both defaulted to the empty string, as Create and
  Update do with \<^verbatim>\<open>|| ''\<close>.
\<close>

theorem import_stores_no_defaults:
  "importBookmarks (served_at 1700000000000 ''2023-11-14'' [1 / 4])
      (JObj [(''bookmarks'', JArr [JObj [(''title'', JStr ''X''), (''url'', JStr ''https://x.test'')]])])
      (Some (Text_of (JArr [])))
   = (Response 200 (JObj [(''message'', JStr ''Successfully imported 1 bookmarks''),
                          (''count'', JNum 1)]),
      Some (Text_of (JArr [JObj [(''title'', JStr ''X''), (''url'', JStr ''https://x.test''),
                                 (''id'', JNum (1700000000000 + 1 / 4))]])))
   \<and> field (JObj [(''title'', JStr ''X''), (''url'', JStr ''https://x.test''),
                  (''id'', JNum (1700000000000 + 1 / 4))]) ''category'' = None
   \<and> field (JObj [(''title'', JStr ''X''), (''url'', JStr ''https://x.test''),
                  (''id'', JNum (1700000000000 + 1 / 4))]) ''description'' = None"
  by code_simp

section \<open>Create\<close>

lemma create_stores_returned_record:
  assumes "\<not> falsy (field body ''title'')" and "\<not> falsy (field body ''url'')"
    and "readBookmarks doc = JArr bs" and "write_fault e = None"
  shows "\<exists>r. createBookmark e body doc = (Response 201 r, Some (Text_of (JArr (bs @ [r]))))
           \<and> field r ''id'' = Some (JNum (of_int (date_now e 0)))
           \<and> field r ''title'' = field body ''title''
           \<and> field r ''url'' = field body ''url''
           \<and> field r ''category'' = Some (or_empty (field body ''category''))
           \<and> field r ''description'' = Some (or_empty (field body ''description''))
           \<and> field r ''dateAdded'' = Some (JStr (iso_date e))"
proof -
  from assms(1) have "body \<noteq> JNull" by auto
  with assms show ?thesis
    by (simp add: createBookmark_def writeBookmarks_ok assign_all_def map_of_put Let_def)
qed

subsection \<open>What each operation does to the ids\<close>

lemma create_ids:
  assumes "\<not> falsy (field body ''title'')" and "\<not> falsy (field body ''url'')"
    and "readBookmarks doc = JArr bs" and "write_fault e = None"
  shows "\<exists>bs'. readBookmarks (snd (createBookmark e body doc)) = JArr bs'
           \<and> ids_of bs' = ids_of bs @ [Some (JNum (of_int (date_now e 0)))]"
proof -
  from create_stores_returned_record [OF assms]
  obtain r where "createBookmark e body doc = (Response 201 r, Some (Text_of (JArr (bs @ [r]))))"
    and "field r ''id'' = Some (JNum (of_int (date_now e 0)))"
    by blast
  then show ?thesis
    by (simp add: readBookmarks_simps ids_of_def)
qed

lemma create_keeps_ids_distinct_iff:
  assumes "\<not> falsy (field body ''title'')" and "\<not> falsy (field body ''url'')"
    and "readBookmarks doc = JArr bs" and "write_fault e = None"
    and "distinct (ids_of bs)"
  shows "\<exists>bs'. readBookmarks (snd (createBookmark e body doc)) = JArr bs'
           \<and> (distinct (ids_of bs') \<longleftrightarrow> Some (JNum (of_int (date_now e 0))) \<notin> set (ids_of bs))"
proof -
  from create_ids [OF assms(1-4)] obtain bs'
    where "readBookmarks (snd (createBookmark e body doc)) = JArr bs'"
      and "ids_of bs' = ids_of bs @ [Some (JNum (of_int (date_now e 0)))]"
    by blast
  with assms(5) show ?thesis by simp
qed

lemma update_keeps_ids:
  assumes "readBookmarks doc = JArr bs" and "write_fault e = None"
  shows "\<exists>bs'. readBookmarks (snd (updateBookmark e path body doc)) = JArr bs'
           \<and> ids_of bs' = ids_of bs"
proof (cases "body = JNull \<or> falsy (field body ''title'') \<or> falsy (field body ''url'')")
  case True
  with assms show ?thesis by (auto simp: updateBookmark_def)
next
  case valid: False
  show ?thesis
  proof (cases "findIndex_id bs (parseInt path)")
    case (Inl err)
    with assms valid show ?thesis by (simp add: updateBookmark_def)
  next
    case (Inr found)
    show ?thesis
    proof (cases found)
      case None
      with Inr assms valid show ?thesis by (simp add: updateBookmark_def)
    next
      case (Some i)
      from findIndex_id_Some [of bs "parseInt path" i] Inr Some
      have i: "i < length bs" "strict_eq (field (bs ! i) ''id'') (parseInt path)" by auto
      from i(2) obtain ps where ps: "bs ! i = JObj ps"
        by (cases "bs ! i") auto
      let ?u = "JObj (assign_all
              [(''title'', field body ''title''), (''url'', field body ''url''),
               (''category'', Some (or_empty (field body ''category''))),
               (''description'', Some (or_empty (field body ''description'')))]
              (spread_props (bs ! i)))"
      have "field ?u ''id'' = field (bs ! i) ''id''"
        by (simp add: ps assign_all_def map_of_put)
      with i(1) have "ids_of (bs[i := ?u]) = ids_of bs"
        by (simp add: ids_of_def map_update list_update_same_conv)
      with Inr Some assms valid i(1) show ?thesis
        by (simp add: updateBookmark_def Let_def writeBookmarks_ok readBookmarks_simps)
    qed
  qed
qed

lemma delete_keeps_ids_distinct:
  assumes "readBookmarks doc = JArr bs" and "write_fault e = None"
    and "distinct (ids_of bs)"
  shows "\<exists>bs'. readBookmarks (snd (deleteBookmark e path doc)) = JArr bs'
           \<and> distinct (ids_of bs')"
proof (cases "filter_other bs (parseInt path)")
  case (Inl err)
  with assms show ?thesis by (simp add: deleteBookmark_def)
next
  case (Inr r)
  from filter_other_Inr [OF Inr] assms(3) have "distinct (ids_of r)"
    by (simp add: ids_of_def distinct_map_filter)
  with assms Inr show ?thesis
    by (simp add: deleteBookmark_def writeBookmarks_ok readBookmarks_simps)
qed

lemma clear_empties:
  "write_fault e = None \<Longrightarrow> readBookmarks (snd (clearBookmarks e doc)) = JArr []"
  by (simp add: clearBookmarks_def writeBookmarks_ok readBookmarks_simps)

text \<open>
  C2, at an input where the code breaks it. Two Create requests served within the same
  millisecond, the first against an empty Collection: both answer 201, and the
  Collection then holds two records with the same id, since the id is the clock
  reading and nothing compares it with the ids already stored. The Collection before
  the second request had distinct ids; the one after it has not. The lemmas above
  bound the defect: Update keeps the ids, Delete and Clear-all keep them distinct, and
  Create keeps them distinct exactly when the clock reading is not yet an id.
\<close>

theorem create_twice_same_millisecond_shares_id:
  "snd (createBookmark
          (served_at 1700000000000 ''2023-11-14'' [])
          (JObj [(''title'', JStr ''B''), (''url'', JStr ''https://b.test'')])
          (snd (createBookmark
                 (served_at 1700000000000 ''2023-11-14'' [])
                 (JObj [(''title'', JStr ''A''), (''url'', JStr ''https://a.test'')])
                 (Some (Text_of (JArr []))))))
   = Some (Text_of (JArr
       [JObj [(''id'', JNum 1700000000000), (''title'', JStr ''A''), (''url'', JStr ''https://a.test''),
              (''category'', JStr []), (''description'', JStr []), (''dateAdded'', JStr ''2023-11-14'')],
        JObj [(''id'', JNum 1700000000000), (''title'', JStr ''B''), (''url'', JStr ''https://b.test''),
              (''category'', JStr []), (''description'', JStr []), (''dateAdded'', JStr ''2023-11-14'')]]))
   \<and> distinct (ids_of [])
   \<and> \<not> distinct (ids_of
       [JObj [(''id'', JNum 1700000000000), (''title'', JStr ''A''), (''url'', JStr ''https://a.test''),
              (''category'', JStr []), (''description'', JStr []), (''dateAdded'', JStr ''2023-11-14'')],
        JObj [(''id'', JNum 1700000000000), (''title'', JStr ''B''), (''url'', JStr ''https://b.test''),
              (''category'', JStr []), (''description'', JStr []), (''dateAdded'', JStr ''2023-11-14'')]])"
  by (simp add: run_defs)

text \<open>
  C3, at an input where the code breaks it. A Create served in the millisecond whose
  reading is already the id of a stored record returns a record with that id: the
  returned id is not absent from the Collection before the call. The rest of the claim
  holds and is \<open>create_stores_returned_record\<close>: the returned record is the one
  appended.
\<close>

theorem create_returns_id_already_present:
  "fst (createBookmark
          (served_at 1700000000000 ''2023-11-14'' [])
          (JObj [(''title'', JStr ''B''), (''url'', JStr ''https://b.test'')])
          (Some (Text_of (JArr [JObj [(''id'', JNum 1700000000000), (''title'', JStr ''A''),
              (''url'', JStr ''https://a.test''), (''category'', JStr []), (''description'', JStr []),
              (''dateAdded'', JStr ''2023-11-14'')]]))))
   = Response 201
       (JObj [(''id'', JNum 1700000000000), (''title'', JStr ''B''), (''url'', JStr ''https://b.test''),
              (''category'', JStr []), (''description'', JStr []), (''dateAdded'', JStr ''2023-11-14'')])
   \<and> Some (JNum 1700000000000) \<in> set (ids_of [JObj [(''id'', JNum 1700000000000), (''title'', JStr ''A''),
              (''url'', JStr ''https://a.test''), (''category'', JStr []), (''description'', JStr []),
              (''dateAdded'', JStr ''2023-11-14'')]])"
  by (simp add: run_defs)

section \<open>Update\<close>



text \<open>
  C10. Whenever Update answers 200, the document read before the call was an array
  \<open>bs\<close>, the path id was found in it at an index \<open>i\<close>, and the document written is
  \<open>bs\<close> with the returned record put at \<open>i\<close>: the length is the same, and every other
  position holds the record it held before, so the order is kept too.
\<close>

theorem update_frame:
  assumes "updateBookmark e path body doc = (resp, doc')" and "status resp = 200"
  shows "\<exists>bs i. readBookmarks doc = JArr bs \<and> i < length bs
           \<and> findIndex_id bs (parseInt path) = Inr (Some i)
           \<and> readBookmarks doc' = JArr (bs[i := payload resp])
           \<and> length (bs[i := payload resp]) = length bs
           \<and> (\<forall>j<length bs. j \<noteq> i \<longrightarrow> bs[i := payload resp] ! j = bs ! j)"
proof -
  from assms obtain bs i where bs: "readBookmarks doc = JArr bs"
    and fi: "findIndex_id bs (parseInt path) = Inr (Some i)"
    and wf: "write_fault e = None"
    and nn: "body \<noteq> JNull" "\<not> falsy (field body ''title'')" "\<not> falsy (field body ''url'')"
    by (auto simp: updateBookmark_def Let_def writeBookmarks_def
             split: if_splits json.splits sum.splits option.splits)
  from findIndex_id_Some [OF fi] have i: "i < length bs" by simp
  from assms(1) bs fi wf nn i have "doc' = Some (Text_of (JArr (bs[i := payload resp])))"
    by (auto simp: updateBookmark_def Let_def writeBookmarks_ok)
  with bs fi i show ?thesis
    by (auto simp: readBookmarks_simps)
qed

theorem update_frame_witness:
  "updateBookmark (served_at 1700000000123 ''2023-11-15'' []) ''2''
       (JObj [(''title'', JStr ''MDN''), (''url'', JStr ''https://mdn.dev'')])
       (Some (Text_of (JArr (defaultBookmarks ''2023-11-14''))))
     = (Response 200
          (JObj [(''id'', JNum 2), (''title'', JStr ''MDN''), (''url'', JStr ''https://mdn.dev''),
                 (''category'', JStr []), (''description'', JStr []),
                 (''dateAdded'', JStr ''2023-11-14'')]),
        Some (Text_of (JArr ((defaultBookmarks ''2023-11-14'')
          [1 := JObj [(''id'', JNum 2), (''title'', JStr ''MDN''), (''url'', JStr ''https://mdn.dev''),
                      (''category'', JStr []), (''description'', JStr []),
                      (''dateAdded'', JStr ''2023-11-14'')]]))))
   \<and> (\<exists>bs i. readBookmarks (Some (Text_of (JArr (defaultBookmarks ''2023-11-14'')))) = JArr bs
          \<and> i < length bs
          \<and> findIndex_id bs (parseInt ''2'') = Inr (Some i)
          \<and> (\<forall>j<length bs. j \<noteq> i \<longrightarrow>
                bs[i := JObj [(''id'', JNum 2), (''title'', JStr ''MDN''), (''url'', JStr ''https://mdn.dev''),
                             (''category'', JStr []), (''description'', JStr []),
                             (''dateAdded'', JStr ''2023-11-14'')]] ! j = bs ! j))"
proof -
  let ?r = "JObj [(''id'', JNum 2), (''title'', JStr ''MDN''), (''url'', JStr ''https://mdn.dev''),
                  (''category'', JStr []), (''description'', JStr []),
                  (''dateAdded'', JStr ''2023-11-14'')]"
  have run: "updateBookmark (served_at 1700000000123 ''2023-11-15'' []) ''2''
       (JObj [(''title'', JStr ''MDN''), (''url'', JStr ''https://mdn.dev'')])
       (Some (Text_of (JArr (defaultBookmarks ''2023-11-14''))))
     = (Response 200 ?r,
        Some (Text_of (JArr ((defaultBookmarks ''2023-11-14'')[1 := ?r]))))"
    by code_simp
  have ok: "status (Response 200 ?r) = 200"
    by simp
  from update_frame [OF run ok] run show ?thesis
    by auto
qed

section \<open>Unknown ids and rejected requests\<close>

lemma delete_not_found:
  assumes "readBookmarks doc = JArr bs"
    and "\<forall>b\<in>set bs. b \<noteq> JNull \<and> \<not> strict_eq (field b ''id'') (parseInt path)"
  shows "deleteBookmark e path doc = (Response 404 (error_json ''Bookmark not found''), doc)"
proof -
  from assms(2) have "filter_other bs (parseInt path) = Inr bs"
    by (simp add: filter_other_total)
  with assms(1) show ?thesis
    by (simp add: deleteBookmark_def)
qed

lemma update_not_found:
  assumes "readBookmarks doc = JArr bs"
    and "\<forall>b\<in>set bs. b \<noteq> JNull \<and> \<not> strict_eq (field b ''id'') (parseInt path)"
    and "\<not> falsy (field body ''title'')" and "\<not> falsy (field body ''url'')"
  shows "updateBookmark e path body doc = (Response 404 (error_json ''Bookmark not found''), doc)"
proof -
  from assms(3) have "body \<noteq> JNull" by auto
  moreover from assms(2) have "findIndex_id bs (parseInt path) = Inr None"
    by (simp add: findIndex_id_None)
  ultimately show ?thesis using assms
    by (simp add: updateBookmark_def)
qed




text \<open>
  On a request that has a body, an empty title or url (absent, the empty string, or
  any other value that \<^verbatim>\<open>!\<close> takes for false) is answered 400 with the validation
  message, and the document returned is the document given: the handler returns before
  it reads or writes the store.
\<close>

lemma missing_title_or_url_rejected:
  assumes "body \<noteq> JNull"
    and "falsy (field body ''title'') \<or> falsy (field body ''url'')"
  shows "createBookmark e body doc = (Response 400 (error_json ''Title and URL are required''), doc)
       \<and> updateBookmark e path body doc = (Response 400 (error_json ''Title and URL are required''), doc)"
  using assms by (auto simp: createBookmark_def updateBookmark_def)

text \<open>
  C6, at an input where the code breaks it. A Create or an Update that carries no body
  has no title; the destructuring of \<^verbatim>\<open>req.body\<close> throws before the test of title and
  url is reached, and the answer is the failure 500 of the \<^verbatim>\<open>catch\<close>, not the
  validation error. The document is left as it was.
\<close>

theorem no_body_answered_500:
  "falsy (field JNull ''title'')
   \<and> createBookmark e JNull doc = (Response 500 (error_json ''Failed to add bookmark''), doc)
   \<and> updateBookmark e path JNull doc
       = (Response 500 (error_json ''Failed to update bookmark''), doc)"
  by (simp add: createBookmark_def updateBookmark_def)

section \<open>Ids that are not integers\<close>

lemma fractional_no_match: "\<not> is_integer q \<Longrightarrow> \<not> strict_eq (Some (JNum q)) n"
  by (cases n) (auto simp: is_integer_def)

lemma delete_keeps_unmatched:
  assumes "readBookmarks doc = JArr bs" and "b \<in> set bs"
    and "\<not> strict_eq (field b ''id'') (parseInt path)"
    and "write_fault e = None"
  shows "\<exists>bs'. readBookmarks (snd (deleteBookmark e path doc)) = JArr bs' \<and> b \<in> set bs'"
proof (cases "filter_other bs (parseInt path)")
  case (Inl err)
  with assms show ?thesis by (simp add: deleteBookmark_def)
next
  case (Inr r)
  from filter_other_Inr [OF Inr] assms(2,3) have "b \<in> set r" by simp
  with assms Inr show ?thesis
    by (simp add: deleteBookmark_def writeBookmarks_ok readBookmarks_simps)
qed

lemma update_keeps_unmatched:
  assumes "readBookmarks doc = JArr bs" and "b \<in> set bs"
    and "\<not> strict_eq (field b ''id'') (parseInt path)"
    and "write_fault e = None"
  shows "\<exists>bs'. readBookmarks (snd (updateBookmark e path body doc)) = JArr bs' \<and> b \<in> set bs'"
proof (cases "body = JNull \<or> falsy (field body ''title'') \<or> falsy (field body ''url'')")
  case True
  with assms show ?thesis by (auto simp: updateBookmark_def)
next
  case valid: False
  show ?thesis
  proof (cases "findIndex_id bs (parseInt path)")
    case (Inl err)
    with assms valid show ?thesis by (simp add: updateBookmark_def)
  next
    case (Inr found)
    show ?thesis
    proof (cases found)
      case None
      with Inr assms valid show ?thesis by (simp add: updateBookmark_def)
    next
      case (Some i)
      from findIndex_id_Some [of bs "parseInt path" i] Inr Some
      have i: "i < length bs" "strict_eq (field (bs ! i) ''id'') (parseInt path)" by auto
      from assms(2) obtain j where j: "j < length bs" "bs ! j = b"
        by (auto simp: in_set_conv_nth)
      with i assms(3) have "j \<noteq> i" by auto
      with j have "b \<in> set (bs[i := u])" for u
        by (metis length_list_update nth_list_update_neq nth_mem)
      with Inr Some assms valid show ?thesis
        by (simp add: updateBookmark_def Let_def writeBookmarks_ok readBookmarks_simps)
    qed
  qed
qed

text \<open>
  C9, as the code has it. \<^verbatim>\<open>parseInt\<close> yields an integer, an infinity or \<^verbatim>\<open>NaN\<close>, so
  a record whose id is a number that is not an integer is matched by no path at all:
  after a Delete or an Update with any path (the write succeeding) that record is
  still in the Collection. The call answers 404 and leaves the document as it was
  when, moreover, no other record has the parsed number as its id (for Update, with a
  title and a url that are not empty).
\<close>

theorem fractional_id_never_matched:
  assumes "readBookmarks doc = JArr bs" and "b \<in> set bs"
    and "field b ''id'' = Some (JNum q)" and "\<not> is_integer q"
    and "write_fault e = None"
  shows "(\<exists>bs'. readBookmarks (snd (deleteBookmark e path doc)) = JArr bs' \<and> b \<in> set bs')
       \<and> (\<exists>bs'. readBookmarks (snd (updateBookmark e path body doc)) = JArr bs' \<and> b \<in> set bs')
       \<and> ((\<forall>x\<in>set bs. x \<noteq> JNull \<and> (x \<noteq> b \<longrightarrow> \<not> strict_eq (field x ''id'') (parseInt path)))
            \<longrightarrow> deleteBookmark e path doc = (Response 404 (error_json ''Bookmark not found''), doc)
              \<and> (\<not> falsy (field body ''title'') \<and> \<not> falsy (field body ''url'')
                   \<longrightarrow> updateBookmark e path body doc
                         = (Response 404 (error_json ''Bookmark not found''), doc)))"
proof (intro conjI impI)
  from assms(3,4) have nm: "\<not> strict_eq (field b ''id'') (parseInt path)"
    by (simp add: fractional_no_match)
  show "\<exists>bs'. readBookmarks (snd (deleteBookmark e path doc)) = JArr bs' \<and> b \<in> set bs'"
    by (rule delete_keeps_unmatched [OF assms(1,2) nm assms(5)])
  show "\<exists>bs'. readBookmarks (snd (updateBookmark e path body doc)) = JArr bs' \<and> b \<in> set bs'"
    by (rule update_keeps_unmatched [OF assms(1,2) nm assms(5)])
  assume others: "\<forall>x\<in>set bs. x \<noteq> JNull \<and> (x \<noteq> b \<longrightarrow> \<not> strict_eq (field x ''id'') (parseInt path))"
  have none: "\<forall>x\<in>set bs. x \<noteq> JNull \<and> \<not> strict_eq (field x ''id'') (parseInt path)"
  proof
    fix x
    assume "x \<in> set bs"
    with others have "x \<noteq> JNull"
      and "x \<noteq> b \<Longrightarrow> \<not> strict_eq (field x ''id'') (parseInt path)"
      by simp_all
    with nm show "x \<noteq> JNull \<and> \<not> strict_eq (field x ''id'') (parseInt path)"
      by (cases "x = b") simp_all
  qed
  show "deleteBookmark e path doc = (Response 404 (error_json ''Bookmark not found''), doc)"
    by (rule delete_not_found [OF assms(1) none])
  assume "\<not> falsy (field body ''title'') \<and> \<not> falsy (field body ''url'')"
  then show "updateBookmark e path body doc = (Response 404 (error_json ''Bookmark not found''), doc)"
    using update_not_found [OF assms(1) none] by blast
qed

theorem fractional_id_never_matched_witness:
  "readBookmarks (Some (Text_of (JArr (defaultBookmarks ''2023-11-14'' @
       [JObj [(''title'', JStr ''B''), (''url'', JStr ''https://b.test''),
              (''id'', JNum (1700000000000 + 1 / 2))]]))))
     = JArr (defaultBookmarks ''2023-11-14'' @
         [JObj [(''title'', JStr ''B''), (''url'', JStr ''https://b.test''),
                (''id'', JNum (1700000000000 + 1 / 2))]])
   \<and> field (JObj [(''title'', JStr ''B''), (''url'', JStr ''https://b.test''),
                  (''id'', JNum (1700000000000 + 1 / 2))]) ''id''
       = Some (JNum (1700000000000 + 1 / 2))
   \<and> \<not> is_integer (1700000000000 + 1 / 2)
   \<and> (\<exists>bs'. readBookmarks (snd (deleteBookmark (served_at 1700000000123 ''2023-11-15'' [])
            ''1700000000000.5''
            (Some (Text_of (JArr (defaultBookmarks ''2023-11-14'' @
               [JObj [(''title'', JStr ''B''), (''url'', JStr ''https://b.test''),
                      (''id'', JNum (1700000000000 + 1 / 2))]])))))) = JArr bs'
          \<and> JObj [(''title'', JStr ''B''), (''url'', JStr ''https://b.test''),
                   (''id'', JNum (1700000000000 + 1 / 2))] \<in> set bs')
   \<and> deleteBookmark (served_at 1700000000123 ''2023-11-15'' []) ''1700000000000.5''
         (Some (Text_of (JArr (defaultBookmarks ''2023-11-14'' @
            [JObj [(''title'', JStr ''B''), (''url'', JStr ''https://b.test''),
                   (''id'', JNum (1700000000000 + 1 / 2))]]))))
       = (Response 404 (error_json ''Bookmark not found''),
          Some (Text_of (JArr (defaultBookmarks ''2023-11-14'' @
            [JObj [(''title'', JStr ''B''), (''url'', JStr ''https://b.test''),
                   (''id'', JNum (1700000000000 + 1 / 2))]]))))
   \<and> updateBookmark (served_at 1700000000123 ''2023-11-15'' []) ''1700000000000.5''
         (JObj [(''title'', JStr ''X''), (''url'', JStr ''https://x.test'')])
         (Some (Text_of (JArr (defaultBookmarks ''2023-11-14'' @
            [JObj [(''title'', JStr ''B''), (''url'', JStr ''https://b.test''),
                   (''id'', JNum (1700000000000 + 1 / 2))]]))))
       = (Response 404 (error_json ''Bookmark not found''),
          Some (Text_of (JArr (defaultBookmarks ''2023-11-14'' @
            [JObj [(''title'', JStr ''B''), (''url'', JStr ''https://b.test''),
                   (''id'', JNum (1700000000000 + 1 / 2))]]))))"
proof -
  let ?b = "JObj [(''title'', JStr ''B''), (''url'', JStr ''https://b.test''),
                  (''id'', JNum (1700000000000 + 1 / 2))]"
  let ?bs = "defaultBookmarks ''2023-11-14'' @ [?b]"
  let ?body = "JObj [(''title'', JStr ''X''), (''url'', JStr ''https://x.test'')]"
  let ?e = "served_at 1700000000123 ''2023-11-15'' []"
  have h1: "readBookmarks (Some (Text_of (JArr ?bs))) = JArr ?bs"
    by (simp add: readBookmarks_simps)
  have h2: "?b \<in> set ?bs"
    by simp
  have h3: "field ?b ''id'' = Some (JNum (1700000000000 + 1 / 2))"
    by simp
  have h4: "\<not> is_integer (1700000000000 + 1 / 2)"
    by code_simp
  have h5: "write_fault ?e = None"
    by (simp add: served_at_def)
  have p: "parseInt ''1700000000000.5'' = Finite 1700000000000"
    by code_simp
  have h6: "\<forall>x\<in>set ?bs. x \<noteq> JNull
              \<and> (x \<noteq> ?b \<longrightarrow> \<not> strict_eq (field x ''id'') (parseInt ''1700000000000.5''))"
    by (simp add: p defaultBookmarks_def)
  have h7: "\<not> falsy (field ?body ''title'') \<and> \<not> falsy (field ?body ''url'')"
    by simp
  from fractional_id_never_matched [OF h1 h2 h3 h4 h5, of "''1700000000000.5''" ?body]
    h1 h3 h4 h6 h7
  show ?thesis by blast
qed

text \<open>
  C9 as written fails when another record has the truncated integer as its id: a
  Delete that gives the path \<^verbatim>\<open>1700000000000.5\<close>, the id of the second record, is
  answered 200, and what it removes is the first record, whose id is 1700000000000.
\<close>

theorem delete_fractional_id_counterexample:
  "deleteBookmark (served_at 1700000000123 ''2023-11-15'' []) ''1700000000000.5''
      (Some (Text_of (JArr
         [JObj [(''id'', JNum 1700000000000), (''title'', JStr ''A''), (''url'', JStr ''https://a.test''),
                (''category'', JStr []), (''description'', JStr []),
                (''dateAdded'', JStr ''2023-11-14'')],
          JObj [(''title'', JStr ''B''), (''url'', JStr ''https://b.test''),
                (''id'', JNum (1700000000000 + 1 / 2))]])))
   = (Response 200 (JObj [(''message'', JStr ''Bookmark deleted successfully'')]),
      Some (Text_of (JArr
         [JObj [(''title'', JStr ''B''), (''url'', JStr ''https://b.test''),
                (''id'', JNum (1700000000000 + 1 / 2))]])))
   \<and> \<not> is_integer (1700000000000 + 1 / 2)"
  by code_simp

section \<open>The visible set\<close>

lemma lower_field_total:
  "field b k = Some (JStr x) \<Longrightarrow> lower_field lc b k = Inr (lc x)"
  by (cases b) (simp_all add: lower_field_def)

lemma lower_field_Inr_ex:
  "lower_field lc b k = Inr s \<Longrightarrow> \<exists>x. field b k = Some (JStr x) \<and> s = lc x"
  unfolding lower_field_def
  by (cases "field b k"; cases "the (field b k)") (auto split: if_splits)

lemma lower_field_Inl:
  "lower_field lc b k = Inl err \<Longrightarrow> err = TypeError"
  unfolding lower_field_def
  by (cases "field b k"; cases "the (field b k)") (auto split: if_splits)

lemma lower_field_Inr:
  assumes "lower_field lc b k = Inr s"
  shows "term_in lc t (field b k) = includes_str s (lc t)"
proof -
  from lower_field_Inr_ex [OF assms] obtain x where "field b k = Some (JStr x)" "s = lc x"
    by blast
  then show ?thesis by (simp add: term_in_def includes_str_sublist)
qed

lemma matchesSearch_Inr:
  assumes "matchesSearch lc t b = Inr m"
  shows "m = (term_in lc t (field b ''title'') \<or> term_in lc t (field b ''description'')
              \<or> term_in lc t (field b ''url''))"
proof -
  from assms obtain ti where ti: "lower_field lc b ''title'' = Inr ti"
    by (cases "lower_field lc b ''title''") (simp_all add: matchesSearch_def)
  note t1 = lower_field_Inr [OF ti, of t]
  show ?thesis
  proof (cases "includes_str ti (lc t)")
    case True
    with assms ti t1 show ?thesis by (simp add: matchesSearch_def)
  next
    case no_title: False
    with assms ti obtain de where de: "lower_field lc b ''description'' = Inr de"
      by (cases "lower_field lc b ''description''") (simp_all add: matchesSearch_def)
    note t2 = lower_field_Inr [OF de, of t]
    show ?thesis
    proof (cases "includes_str de (lc t)")
      case True
      with assms ti de no_title t2 show ?thesis by (simp add: matchesSearch_def)
    next
      case no_descr: False
      with assms ti de no_title obtain ur where ur: "lower_field lc b ''url'' = Inr ur"
        by (cases "lower_field lc b ''url''") (simp_all add: matchesSearch_def)
      note t3 = lower_field_Inr [OF ur, of t]
      from assms ti de ur no_title no_descr t1 t2 t3 show ?thesis
        by (simp add: matchesSearch_def)
    qed
  qed
qed

lemma is_text_StrE: "is_text v \<Longrightarrow> \<exists>x. v = Some (JStr x)"
  by (cases v rule: is_text.cases) simp_all

lemma matchesSearch_total:
  assumes "has_texts b"
  shows "\<exists>m. matchesSearch lc t b = Inr m"
proof -
  from assms obtain x y z where "field b ''title'' = Some (JStr x)"
    "field b ''description'' = Some (JStr y)" "field b ''url'' = Some (JStr z)"
    unfolding has_texts_def by (blast dest: is_text_StrE)
  then show ?thesis
    by (auto simp: matchesSearch_def lower_field_total)
qed

lemma matchesSearch_Inl:
  "matchesSearch lc t b = Inl err \<Longrightarrow> err = TypeError"
  by (auto simp: matchesSearch_def split: sum.splits if_splits dest: lower_field_Inl)

lemma matchesSearch_no_title:
  "field b ''title'' = None \<Longrightarrow> matchesSearch lc t b = Inl TypeError"
  by (simp add: matchesSearch_def lower_field_def)

text \<open>
  A record with a title that does not hold the search term and without a description,
  such as Import stores, makes the filter throw as well.
\<close>

lemma matchesSearch_no_description:
  assumes "field b ''title'' = Some (JStr x)" and "\<not> includes_str (lc x) (lc t)"
    and "field b ''description'' = None"
  shows "matchesSearch lc t b = Inl TypeError"
  using assms by (simp add: matchesSearch_def lower_field_total) (simp add: lower_field_def)

lemma filteredBookmarks_Inl:
  "filteredBookmarks lc bs t c = Inl err \<Longrightarrow> err = TypeError"
proof (induction bs)
  case Nil
  then show ?case by simp
next
  case (Cons b bs)
  then show ?case
    by (auto split: sum.splits dest: matchesSearch_Inl)
qed

lemma filteredBookmarks_throws:
  assumes "b \<in> set bs" and "matchesSearch lc t b = Inl TypeError"
  shows "filteredBookmarks lc bs t c = Inl TypeError"
  using assms(1)
proof (induction bs)
  case Nil
  then show ?case by simp
next
  case (Cons x xs)
  show ?case
  proof (cases "matchesSearch lc t x")
    case (Inl err)
    with matchesSearch_Inl [OF Inl] show ?thesis by simp
  next
    case (Inr m)
    with Cons.prems assms(2) have "b \<in> set xs" by auto
    from Cons.IH [OF this] Inr show ?thesis by simp
  qed
qed

text \<open>
  Whenever the filter returns, it returns, in the order of the collection, exactly the
  bookmarks that the specification calls visible; and it does return on a collection
  whose titles, descriptions and urls are all texts.
\<close>

lemma filteredBookmarks_Inr:
  "filteredBookmarks lc bs t c = Inr vis \<Longrightarrow> vis = filter (visible_spec lc t c) bs"
proof (induction bs arbitrary: vis)
  case Nil
  then show ?case by simp
next
  case (Cons b bs)
  from Cons.prems obtain m where m: "matchesSearch lc t b = Inr m"
    by (cases "matchesSearch lc t b") simp_all
  with Cons.prems obtain rest where rest: "filteredBookmarks lc bs t c = Inr rest"
    by (cases "filteredBookmarks lc bs t c") simp_all
  from Cons.IH [OF rest] have r: "rest = filter (visible_spec lc t c) bs" .
  from matchesSearch_Inr [OF m] have "(m \<and> matchesCategory c b) = visible_spec lc t c b"
    by (simp add: visible_spec_def matchesCategory_def)
  with Cons.prems m rest r show ?case by auto
qed

lemma filteredBookmarks_total:
  "\<forall>b\<in>set bs. has_texts b \<Longrightarrow> \<exists>vis. filteredBookmarks lc bs t c = Inr vis"
proof (induction bs)
  case Nil
  then show ?case by simp
next
  case (Cons b bs)
  then obtain vis where "filteredBookmarks lc bs t c = Inr vis" by auto
  moreover from Cons.prems have "has_texts b" by simp
  from matchesSearch_total [OF this] obtain m where "matchesSearch lc t b = Inr m" by blast
  ultimately show ?case by simp
qed

lemma visible_subset:
  assumes "\<forall>b\<in>set bookmarks. has_texts b"
  shows "filteredBookmarks lc bookmarks searchTerm selectedCategory
           = Inr (filter (visible_spec lc searchTerm selectedCategory) bookmarks)"
proof -
  from filteredBookmarks_total [OF assms]
  obtain vis where v: "filteredBookmarks lc bookmarks searchTerm selectedCategory = Inr vis"
    by blast
  from filteredBookmarks_Inr [OF v] v show ?thesis by simp
qed

text \<open>
  C7, at an input where the code breaks it. After an Import of one record that has
  only a url, against the three default bookmarks, the Collection that List hands to
  the client ends with a record without a title. On that collection the filter throws
  a TypeError at \<^verbatim>\<open>bookmark.title.toLowerCase()\<close>, whatever the search term, the
  selected category and the case folding are: no bookmark is visible, where the claim
  has every bookmark visible that matches the search and the category.
\<close>

theorem filter_throws_on_imported_record:
  "readBookmarks (snd (importBookmarks (served_at 1700000000000 ''2023-11-15'' [1 / 4])
      (JObj [(''bookmarks'', JArr [JObj [(''url'', JStr ''https://y.test'')]])])
      (Some (Text_of (JArr (defaultBookmarks ''2023-11-14''))))))
   = JArr (defaultBookmarks ''2023-11-14''
           @ [JObj [(''url'', JStr ''https://y.test''), (''id'', JNum (1700000000000 + 1 / 4))]])
   \<and> filteredBookmarks toLowerCase
        (defaultBookmarks ''2023-11-14''
           @ [JObj [(''url'', JStr ''https://y.test''), (''id'', JNum (1700000000000 + 1 / 4))]])
        searchTerm selectedCategory
     = Inl TypeError"
proof
  show "readBookmarks (snd (importBookmarks (served_at 1700000000000 ''2023-11-15'' [1 / 4])
      (JObj [(''bookmarks'', JArr [JObj [(''url'', JStr ''https://y.test'')]])])
      (Some (Text_of (JArr (defaultBookmarks ''2023-11-14''))))))
   = JArr (defaultBookmarks ''2023-11-14''
           @ [JObj [(''url'', JStr ''https://y.test''), (''id'', JNum (1700000000000 + 1 / 4))]])"
    by code_simp
next
  let ?b = "JObj [(''url'', JStr ''https://y.test''), (''id'', JNum (1700000000000 + 1 / 4))]"
  have "matchesSearch toLowerCase searchTerm ?b = Inl TypeError"
    by (rule matchesSearch_no_title) simp
  moreover have "?b \<in> set (defaultBookmarks ''2023-11-14'' @ [?b])"
    by simp
  ultimately show "filteredBookmarks toLowerCase (defaultBookmarks ''2023-11-14'' @ [?b])
      searchTerm selectedCategory = Inl TypeError"
    by (rule filteredBookmarks_throws [rotated])
qed

section \<open>Reading the store\<close>

text \<open>
  C8. The three states of the document: a text that parses is returned as parsed; a
  missing file and a text that does not parse both yield the empty Collection, the
  failure being caught inside \<open>readBookmarks\<close>, and List then answers 200 with the
  empty list.
\<close>

theorem readBookmarks_degrades:
  "readBookmarks (Some (Text_of v)) = v
   \<and> readBookmarks None = JArr []
   \<and> readBookmarks (Some (Unparsable s)) = JArr []
   \<and> getBookmarks None = Response 200 (JArr [])
   \<and> getBookmarks (Some (Unparsable s)) = Response 200 (JArr [])"
  by (simp add: readBookmarks_def fs_readFile_def getBookmarks_def)

end
